theory Spec2Isabelle
  imports Main "HOL-Library.Sublist"
begin

section \<open>Universe selection of the QVAL tutorial (Part2-Universe-Selection.ipynb)\<close>

text \<open>
  The notebook downloads the securities master file of one exchange, reads it into a pandas
  DataFrame, selects rows with three boolean masks, writes each selection to a CSV file of
  its own and hands each file (and first the unfiltered master file) to
  \<^verbatim>\<open>create_universe\<close>:
  \<^verbatim>\<open>
  download_master_file("sharadar_nyse_securities.csv", exchanges="NYSE", fields="sharadar*", vendors="sharadar")
  create_universe("nyse-stk", "sharadar_nyse_securities.csv")
  nyse_securities = pd.read_csv("sharadar_nyse_securities.csv")
  nyse_securities.sharadar_Sector.unique()
  nyse_securities[nyse_securities.sharadar_Sector == "Financial Services"].to_csv("sharadar_nyse_financials.csv")
  create_universe("nyse-financials", "sharadar_nyse_financials.csv")
  nyse_securities[nyse_securities.sharadar_Industry.fillna("").str.contains("REIT")].to_csv("sharadar_nyse_reits.csv")
  create_universe("nyse-reits", "sharadar_nyse_reits.csv")
  nyse_securities.sharadar_Category.unique()
  nyse_securities[nyse_securities.sharadar_Category.fillna("").str.startswith("ADR")][["sharadar_Ticker","sharadar_Name","sharadar_Category"]].head()
  nyse_securities[nyse_securities.sharadar_Category.fillna("").str.startswith("ADR")].to_csv("sharadar_nyse_adrs.csv")
  create_universe("nyse-adrs", "sharadar_nyse_adrs.csv")
  \<close>
  The pandas operations are modelled at the level of tables: a file is a header and a list of
  records, a DataFrame is its column names and its rows, each row carrying its index label.
\<close>

subsection \<open>Data: cells, files, frames, errors\<close>

text \<open>
  A cell is a string or missing (\<open>None\<close> is pandas' NaN). The descriptive columns of the
  master file are categorical strings; a cell that pandas holds as a number is not modelled,
  so a frame here is a frame whose cells are strings or NaN.
\<close>

type_synonym cell = "string option"

record csv_file =
  header :: "string list"
  records :: "cell list list"

record data_frame =
  columns :: "string list"
  rows :: "(nat \<times> cell list) list"

datatype error =
    FileNotFoundError string
  | EmptyDataError string
  | ParserError string
  | AttributeError string
  | KeyError "string list"
  | ValueError
  | ConfigurationError string

type_synonym files = "string \<Rightarrow> csv_file option"

record universe =
  code :: string
  members :: "string set"

subsection \<open>Strings\<close>

text \<open>
  \<^verbatim>\<open>str.contains("REIT")\<close> is a regular-expression search; the pattern has no
  metacharacter, so the search is for the literal text at any position, case-sensitive.
  \<open>str_contains\<close> scans the positions of the string from left to right.
\<close>

fun str_contains :: "string \<Rightarrow> string \<Rightarrow> bool" where
  "str_contains pat [] = (pat = [])"
| "str_contains pat (c # cs) = (prefix pat (c # cs) \<or> str_contains pat cs)"

definition str_startswith :: "string \<Rightarrow> string \<Rightarrow> bool" where
  "str_startswith pat s = prefix pat s"

text \<open>Decimal rendering of an index label, as \<^verbatim>\<open>to_csv\<close> writes it.\<close>

definition digit_char :: "nat \<Rightarrow> char" where
  "digit_char d = char_of (48 + d)"

fun str_nat :: "nat \<Rightarrow> string" where
  "str_nat n = (if n < 10 then [digit_char n] else str_nat (n div 10) @ [digit_char (n mod 10)])"

declare str_nat.simps [simp del]

subsection \<open>pandas operations\<close>

text \<open>Position of a column name in a header (the first one).\<close>

fun index_of :: "'a \<Rightarrow> 'a list \<Rightarrow> nat option" where
  "index_of x [] = None"
| "index_of x (y # ys) = (if x = y then Some 0 else map_option Suc (index_of x ys))"

text \<open>A field of a record; a record shorter than the header has missing fields at its end.\<close>

definition cell_at :: "cell list \<Rightarrow> nat \<Rightarrow> cell" where
  "cell_at cs k = (if k < length cs then cs ! k else None)"

definition pad :: "nat \<Rightarrow> cell list \<Rightarrow> cell list" where
  "pad n cs = cs @ replicate (n - length cs) None"

text \<open>An empty line of the file: no field, or one empty field.\<close>

definition blank :: "cell list \<Rightarrow> bool" where
  "blank r = (r = [] \<or> r = [None])"

text \<open>
  \<^verbatim>\<open>pd.read_csv(path)\<close>: the header names the columns, blank lines are skipped, the
  rows get the labels \<open>0, 1, 2, ...\<close> (a RangeIndex) and short records are filled with NaN.
  A file without a header line is an EmptyDataError. A field that pandas reads as missing
  (an empty field, or one of its NA markers) is a \<open>None\<close> cell of the file already.
  The frame keeps the names and the cells as the file has them: pandas renames a repeated
  or empty column name and holds a column of numbers as numbers, so this is \<^verbatim>\<open>read_csv\<close>
  on tables whose column names are distinct and not empty and whose cells are text.
  A record with more fields than the header is the tokenizer's error; a file whose first
  record carries more fields than the header, which pandas would read with its first
  fields as index, is not told apart from it. The theorems below about what a run selects
  and writes are about runs that read the file without this error.
\<close>

definition frame_of :: "csv_file \<Rightarrow> data_frame" where
  "frame_of f =
     (let rs = filter (\<lambda>r. \<not> blank r) (records f)
      in \<lparr>columns = header f,
          rows = zip [0..<length rs] (map (pad (length (header f))) rs)\<rparr>)"

definition read_csv :: "string \<Rightarrow> files \<Rightarrow> error + data_frame" where
  "read_csv path fs =
     (case fs path of
        None \<Rightarrow> Inl (FileNotFoundError path)
      | Some f \<Rightarrow>
          if header f = [] then Inl (EmptyDataError path)
          else if list_ex (\<lambda>r. length (header f) < length r) (records f)
          then Inl (ParserError path)
          else Inr (frame_of f))"

text \<open>\<^verbatim>\<open>df.name\<close>: the column as a series of cells, AttributeError when there is none.\<close>

definition getattr :: "data_frame \<Rightarrow> string \<Rightarrow> error + cell list" where
  "getattr df name =
     (case index_of name (columns df) of
        None \<Rightarrow> Inl (AttributeError name)
      | Some k \<Rightarrow> Inr (map (\<lambda>(i, cs). cell_at cs k) (rows df)))"

text \<open>\<^verbatim>\<open>series.unique()\<close>: the values in the order of their first occurrence.\<close>

definition unique :: "cell list \<Rightarrow> cell list" where
  "unique s = rev (remdups (rev s))"

text \<open>\<^verbatim>\<open>series == lit\<close>: element-wise, NaN compares unequal to everything.\<close>

definition series_eq :: "cell list \<Rightarrow> string \<Rightarrow> bool option list" where
  "series_eq s lit = map (\<lambda>c. Some (c = Some lit)) s"

definition fillna :: "string \<Rightarrow> cell list \<Rightarrow> cell list" where
  "fillna v s = map (\<lambda>c. case c of None \<Rightarrow> Some v | Some x \<Rightarrow> Some x) s"

text \<open>The \<^verbatim>\<open>.str\<close> methods give NaN on a NaN element.\<close>

definition series_str_contains :: "cell list \<Rightarrow> string \<Rightarrow> bool option list" where
  "series_str_contains s pat = map (map_option (str_contains pat)) s"

definition series_str_startswith :: "cell list \<Rightarrow> string \<Rightarrow> bool option list" where
  "series_str_startswith s pat = map (map_option (str_startswith pat)) s"

text \<open>
  \<^verbatim>\<open>df[mask]\<close>: the rows whose mask element is True, with their labels; a mask with a
  NaN element is a ValueError. The masks of the notebook are computed from the frame they
  select from, so mask and rows are aligned by position.
\<close>

definition getitem :: "data_frame \<Rightarrow> bool option list \<Rightarrow> error + data_frame" where
  "getitem df msk =
     (if None \<in> set msk then Inl ValueError
      else Inr (df\<lparr>rows := map fst (filter (\<lambda>(r, m). m = Some True) (zip (rows df) msk))\<rparr>))"

text \<open>
  \<^verbatim>\<open>df[[name, ...]]\<close>: the named columns in the order given; KeyError with the names
  that are no column of the frame.
\<close>

definition getitem_columns :: "data_frame \<Rightarrow> string list \<Rightarrow> error + data_frame" where
  "getitem_columns df names =
     (case filter (\<lambda>n. n \<notin> set (columns df)) names of
        [] \<Rightarrow>
          Inr \<lparr>columns = names,
               rows = map (\<lambda>(i, cs).
                        (i, map (\<lambda>n. case index_of n (columns df) of
                                        None \<Rightarrow> None
                                      | Some k \<Rightarrow> cell_at cs k) names))
                      (rows df)\<rparr>
      | m # ms \<Rightarrow> Inl (KeyError (m # ms)))"

text \<open>\<^verbatim>\<open>df.head()\<close>: the first five rows.\<close>

definition head :: "data_frame \<Rightarrow> data_frame" where
  "head df = df\<lparr>rows := take 5 (rows df)\<rparr>"

text \<open>
  \<^verbatim>\<open>df.to_csv(path)\<close> with its default \<^verbatim>\<open>index=True\<close>: the index is written as
  a first column with an empty name, then the columns of the frame.
\<close>

definition csv_of :: "data_frame \<Rightarrow> csv_file" where
  "csv_of df = \<lparr>header = [] # columns df,
                records = map (\<lambda>(i, cs). Some (str_nat i) # cs) (rows df)\<rparr>"

definition to_csv :: "data_frame \<Rightarrow> string \<Rightarrow> files \<Rightarrow> files" where
  "to_csv df path fs = fs(path \<mapsto> csv_of df)"

subsection \<open>The platform calls\<close>

text \<open>
  \<^verbatim>\<open>download_master_file("sharadar_nyse_securities.csv", exchanges="NYSE", ...)\<close>
  writes the platform's securities master of the exchange to the path. The table the
  platform holds is not part of the repository: it is the parameter \<open>master\<close>, the input
  table of a run.
\<close>

definition download_master_file :: "string \<Rightarrow> csv_file \<Rightarrow> files \<Rightarrow> files" where
  "download_master_file path master fs = fs(path \<mapsto> master)"

text \<open>
  The column of a master file that holds the security identifier. A master file of the
  platform names it \<^verbatim>\<open>Sid\<close>; the theorems below depend on the name only in that it is
  not the empty name of the index column that \<^verbatim>\<open>to_csv\<close> adds.
\<close>

definition identifier_column :: string where
  "identifier_column = ''Sid''"

text \<open>The identifiers a membership file provides: those present in its identifier column.\<close>

definition identifiers :: "csv_file \<Rightarrow> string list" where
  "identifiers f =
     (case index_of identifier_column (header f) of
        None \<Rightarrow> []
      | Some k \<Rightarrow> List.map_filter (\<lambda>r. cell_at r k) (records f))"

text \<open>
  Modelled from the spec: \<^verbatim>\<open>create_universe\<close> is a call into the platform's client
  library, whose code is not part of the repository. The spec has a universe as a named set
  of security identifiers built from a membership file ("duplicates collapse"), a record
  being admitted when its identifier is present. Whether the platform accepts a membership
  file at all (one without the identifier column, say) the spec's words about the call do
  not tell: it is the parameter \<open>verdict\<close>, which gives for a universe name and a file
  the error the platform raises, if any. What the platform does with a universe that exists
  already is not modelled: the call returns the universe it was asked to create.
\<close>

type_synonym platform = "string \<Rightarrow> csv_file \<Rightarrow> error option"

definition create_universe :: "platform \<Rightarrow> string \<Rightarrow> string \<Rightarrow> files \<Rightarrow> error + universe" where
  "create_universe verdict c path fs =
     (case fs path of
        None \<Rightarrow> Inl (FileNotFoundError path)
      | Some f \<Rightarrow>
          (case verdict c f of
             Some e \<Rightarrow> Inl e
           | None \<Rightarrow> Inr \<lparr>code = c, members = set (identifiers f)\<rparr>))"

subsection \<open>The three selections\<close>

definition financials_frame :: "data_frame \<Rightarrow> error + data_frame" where
  "financials_frame df =
     (case getattr df ''sharadar_Sector'' of
        Inl e \<Rightarrow> Inl e
      | Inr s \<Rightarrow> getitem df (series_eq s ''Financial Services''))"

definition reits_frame :: "data_frame \<Rightarrow> error + data_frame" where
  "reits_frame df =
     (case getattr df ''sharadar_Industry'' of
        Inl e \<Rightarrow> Inl e
      | Inr s \<Rightarrow> getitem df (series_str_contains (fillna [] s) ''REIT''))"

definition adrs_frame :: "data_frame \<Rightarrow> error + data_frame" where
  "adrs_frame df =
     (case getattr df ''sharadar_Category'' of
        Inl e \<Rightarrow> Inl e
      | Inr s \<Rightarrow> getitem df (series_str_startswith (fillna [] s) ''ADR''))"

subsection \<open>The cells that only display\<close>

text \<open>
  \<^verbatim>\<open>nyse_securities.sharadar_Sector.unique()\<close>,
  \<^verbatim>\<open>nyse_securities.sharadar_Category.unique()\<close> and the first rows of the ADR selection
  with three of its columns. What they return is shown and dropped; they can raise.
\<close>

definition sector_values :: "data_frame \<Rightarrow> error + cell list" where
  "sector_values df = map_sum id unique (getattr df ''sharadar_Sector'')"

definition category_values :: "data_frame \<Rightarrow> error + cell list" where
  "category_values df = map_sum id unique (getattr df ''sharadar_Category'')"

definition adrs_head :: "data_frame \<Rightarrow> error + data_frame" where
  "adrs_head df =
     (case adrs_frame df of
        Inl e \<Rightarrow> Inl e
      | Inr out \<Rightarrow>
          map_sum id head
            (getitem_columns out [''sharadar_Ticker'', ''sharadar_Name'', ''sharadar_Category'']))"

subsection \<open>The notebook\<close>

text \<open>
  One code cell of a selection: select, write the file, create the universe from the file.
  An exception leaves the files as they are at that point.
\<close>

definition selection_cell ::
  "platform \<Rightarrow> (data_frame \<Rightarrow> error + data_frame) \<Rightarrow> string \<Rightarrow> string \<Rightarrow> data_frame \<Rightarrow> files
     \<Rightarrow> files \<times> (error + universe)" where
  "selection_cell verdict sel path c df fs =
     (case sel df of
        Inl e \<Rightarrow> (fs, Inl e)
      | Inr out \<Rightarrow>
          (to_csv out path fs, create_universe verdict c path (to_csv out path fs)))"

record universes =
  nyse_stk :: universe
  nyse_financials :: universe
  nyse_reits :: universe
  nyse_adrs :: universe

definition securities_csv :: string where
  "securities_csv = ''sharadar_nyse_securities.csv''"

definition financials_csv :: string where
  "financials_csv = ''sharadar_nyse_financials.csv''"

definition reits_csv :: string where
  "reits_csv = ''sharadar_nyse_reits.csv''"

definition adrs_csv :: string where
  "adrs_csv = ''sharadar_nyse_adrs.csv''"

text \<open>
  The code cells in their order. The result is the files as the run leaves them and the
  four universes, or the exception that stopped the run.
\<close>

definition notebook :: "platform \<Rightarrow> csv_file \<Rightarrow> files \<Rightarrow> files \<times> (error + universes)" where
  "notebook verdict master fs =
     (let fs0 = download_master_file securities_csv master fs in
      case create_universe verdict ''nyse-stk'' securities_csv fs0 of
        Inl e \<Rightarrow> (fs0, Inl e)
      | Inr stk \<Rightarrow>
     (case read_csv securities_csv fs0 of
        Inl e \<Rightarrow> (fs0, Inl e)
      | Inr nyse_securities \<Rightarrow>
     (case sector_values nyse_securities of
        Inl e \<Rightarrow> (fs0, Inl e)
      | Inr sectors \<Rightarrow>
     (case selection_cell verdict financials_frame financials_csv ''nyse-financials''
             nyse_securities fs0 of
        (fs1, Inl e) \<Rightarrow> (fs1, Inl e)
      | (fs1, Inr fin) \<Rightarrow>
     (case selection_cell verdict reits_frame reits_csv ''nyse-reits'' nyse_securities fs1 of
        (fs2, Inl e) \<Rightarrow> (fs2, Inl e)
      | (fs2, Inr reit) \<Rightarrow>
     (case category_values nyse_securities of
        Inl e \<Rightarrow> (fs2, Inl e)
      | Inr categories \<Rightarrow>
     (case adrs_head nyse_securities of
        Inl e \<Rightarrow> (fs2, Inl e)
      | Inr shown \<Rightarrow>
     (case selection_cell verdict adrs_frame adrs_csv ''nyse-adrs'' nyse_securities fs2 of
        (fs3, Inl e) \<Rightarrow> (fs3, Inl e)
      | (fs3, Inr adr) \<Rightarrow>
          (fs3, Inr \<lparr>nyse_stk = stk, nyse_financials = fin, nyse_reits = reit,
                     nyse_adrs = adr\<rparr>)))))))))"

subsection \<open>Example tables and platforms\<close>

text \<open>
  A platform that accepts every file, and one that rejects a file without the identifier
  column with a configuration-kind error, as the spec asks of the classifier.
\<close>

definition accepting :: platform where
  "accepting c f = None"


text \<open>The tables of the spec's examples; the fields an example does not give are missing.\<close>

definition master_header :: "string list" where
  "master_header = [''Sid'', ''sharadar_Ticker'', ''sharadar_Name'', ''sharadar_Sector'',
                    ''sharadar_Industry'', ''sharadar_Category'']"

definition example_sectors :: csv_file where
  "example_sectors = \<lparr>header = master_header,
     records = [[Some ''A'', None, None, Some ''Financial Services'', None, None],
                [Some ''B'', None, None, Some ''Energy'', None, None],
                [Some ''C'', None, None, None, None, None]]\<rparr>"

definition example_industries :: csv_file where
  "example_industries = \<lparr>header = master_header,
     records = [[Some ''X'', None, None, None, Some ''REIT - Office'', None],
                [Some ''Y'', None, None, None, Some ''REIT'', None],
                [Some ''Z'', None, None, None, Some ''Retail'', None],
                [Some ''W'', None, None, None, None, None]]\<rparr>"

definition example_categories :: csv_file where
  "example_categories = \<lparr>header = master_header,
     records = [[Some ''P'', None, None, None, None, Some ''ADR Preferred''],
                [Some ''Q'', None, None, None, None, Some ''Domestic''],
                [Some ''R'', None, None, None, None, Some ''ADR'']]\<rparr>"

text \<open>A table with a row that all three selections take, and one that none takes.\<close>

definition example_overlap :: csv_file where
  "example_overlap = \<lparr>header = master_header,
     records = [[Some ''M'', Some ''MTG'', Some ''Mortgage Trust'', Some ''Financial Services'',
                 Some ''REIT - Mortgage'', Some ''ADR''],
                [Some ''N'', Some ''NRG'', Some ''Energy Co'', Some ''Energy'', None,
                 Some ''Domestic'']]\<rparr>"

text \<open>A table in which two records carry the same identifier.\<close>

definition example_duplicate :: csv_file where
  "example_duplicate = \<lparr>header = master_header,
     records = [[Some ''A'', None, None, Some ''Financial Services'', None, None],
                [Some ''A'', None, None, Some ''Energy'', None, None]]\<rparr>"



section \<open>Properties\<close>

subsection \<open>Strings, headers and cells\<close>

lemma select_map:
  "map fst (filter (\<lambda>(r, m). m = Some True) (zip xs (map g xs))) = filter (\<lambda>r. g r = Some True) xs"
  by (induction xs) auto

lemma str_contains_sublist: "str_contains pat s = sublist pat s"
  by (induction s) (auto simp: sublist_Cons_right)

lemma str_contains_iff: "str_contains pat s \<longleftrightarrow> (\<exists>pre suf. s = pre @ pat @ suf)"
  by (simp add: str_contains_sublist sublist_def)

lemma index_of_None: "index_of x xs = None \<longleftrightarrow> x \<notin> set xs"
  by (induction xs) auto

lemma cell_at_Cons_Suc: "cell_at (c # cs) (Suc k) = cell_at cs k"
  by (simp add: cell_at_def)

lemma prefix_iff: "prefix pat s \<longleftrightarrow> (\<exists>suf. s = pat @ suf)"
  by (simp add: prefix_def)

subsection \<open>The selections as filters\<close>

lemma getitem_map:
  "None \<notin> g ` set (rows df) \<Longrightarrow>
   getitem df (map g (rows df)) = Inr (df\<lparr>rows := filter (\<lambda>r. g r = Some True) (rows df)\<rparr>)"
  using select_map [of "rows df" g] by (simp add: getitem_def)

lemma financials_frame_eq:
  "financials_frame df =
     (case index_of ''sharadar_Sector'' (columns df) of
        None \<Rightarrow> Inl (AttributeError ''sharadar_Sector'')
      | Some k \<Rightarrow> Inr (df\<lparr>rows := filter (\<lambda>r. cell_at (snd r) k = Some ''Financial Services'') (rows df)\<rparr>))"
proof (cases "index_of ''sharadar_Sector'' (columns df)")
  case None
  then show ?thesis by (simp add: financials_frame_def getattr_def)
next
  case (Some k)
  let ?g = "\<lambda>r. Some (cell_at (snd r) k = Some ''Financial Services'')"
  have s: "series_eq (map (\<lambda>(i, cs). cell_at cs k) (rows df)) ''Financial Services''
      = map ?g (rows df)"
    by (simp add: series_eq_def case_prod_unfold)
  have "None \<notin> ?g ` set (rows df)" by auto
  from getitem_map [OF this] show ?thesis using Some
    by (simp add: financials_frame_def getattr_def s)
qed

lemma reits_frame_eq:
  "reits_frame df =
     (case index_of ''sharadar_Industry'' (columns df) of
        None \<Rightarrow> Inl (AttributeError ''sharadar_Industry'')
      | Some k \<Rightarrow> Inr (df\<lparr>rows := filter (\<lambda>r. str_contains ''REIT'' (case cell_at (snd r) k of None \<Rightarrow> [] | Some x \<Rightarrow> x)) (rows df)\<rparr>))"
proof (cases "index_of ''sharadar_Industry'' (columns df)")
  case None
  then show ?thesis by (simp add: reits_frame_def getattr_def)
next
  case (Some k)
  let ?g = "\<lambda>r. Some (str_contains ''REIT'' (case cell_at (snd r) k of None \<Rightarrow> [] | Some x \<Rightarrow> x))"
  have s: "series_str_contains (fillna [] (map (\<lambda>(i, cs). cell_at cs k) (rows df))) ''REIT''
      = map ?g (rows df)"
    by (auto simp: series_str_contains_def fillna_def case_prod_unfold split: option.splits)
  have "None \<notin> ?g ` set (rows df)" by auto
  from getitem_map [OF this] show ?thesis using Some
    by (simp add: reits_frame_def getattr_def s)
qed

lemma adrs_frame_eq:
  "adrs_frame df =
     (case index_of ''sharadar_Category'' (columns df) of
        None \<Rightarrow> Inl (AttributeError ''sharadar_Category'')
      | Some k \<Rightarrow> Inr (df\<lparr>rows := filter (\<lambda>r. prefix ''ADR'' (case cell_at (snd r) k of None \<Rightarrow> [] | Some x \<Rightarrow> x)) (rows df)\<rparr>))"
proof (cases "index_of ''sharadar_Category'' (columns df)")
  case None
  then show ?thesis by (simp add: adrs_frame_def getattr_def)
next
  case (Some k)
  let ?g = "\<lambda>r. Some (prefix ''ADR'' (case cell_at (snd r) k of None \<Rightarrow> [] | Some x \<Rightarrow> x))"
  have s: "series_str_startswith (fillna [] (map (\<lambda>(i, cs). cell_at cs k) (rows df))) ''ADR''
      = map ?g (rows df)"
    by (auto simp: series_str_startswith_def str_startswith_def fillna_def case_prod_unfold split: option.splits)
  have "None \<notin> ?g ` set (rows df)" by auto
  from getitem_map [OF this] show ?thesis using Some
    by (simp add: adrs_frame_def getattr_def s)
qed

lemma frame_columns:
  "financials_frame df = Inr out \<Longrightarrow> columns out = columns df"
  "reits_frame df = Inr out \<Longrightarrow> columns out = columns df"
  "adrs_frame df = Inr out \<Longrightarrow> columns out = columns df"
  by (auto simp: financials_frame_eq reits_frame_eq adrs_frame_eq split: option.splits)

lemma sector_values_eq:
  "sector_values df =
     (case financials_frame df of Inl e \<Rightarrow> Inl e
      | Inr out \<Rightarrow> Inr (unique (map (\<lambda>(i, cs).
          cell_at cs (case index_of ''sharadar_Sector'' (columns df) of Some k \<Rightarrow> k | None \<Rightarrow> 0))
          (rows df))))"
  by (simp add: sector_values_def financials_frame_eq getattr_def split: option.splits)

lemma category_values_eq:
  "category_values df =
     (case adrs_frame df of Inl e \<Rightarrow> Inl e
      | Inr out \<Rightarrow> Inr (unique (map (\<lambda>(i, cs).
          cell_at cs (case index_of ''sharadar_Category'' (columns df) of Some k \<Rightarrow> k | None \<Rightarrow> 0))
          (rows df))))"
  by (simp add: category_values_def adrs_frame_eq getattr_def split: option.splits)

lemma filter_missing_empty:
  "filter (\<lambda>n. n \<notin> S) names = [] \<longleftrightarrow> set names \<subseteq> S"
  by (auto simp: filter_empty_conv)

lemma getitem_columns_Inr:
  "(\<exists>d. getitem_columns df names = Inr d) \<longleftrightarrow> set names \<subseteq> set (columns df)"
proof (cases "filter (\<lambda>n. n \<notin> set (columns df)) names")
  case Nil
  then show ?thesis using filter_missing_empty [of "set (columns df)" names]
    by (simp add: getitem_columns_def)
next
  case (Cons m ms)
  then show ?thesis using filter_missing_empty [of "set (columns df)" names]
    by (simp add: getitem_columns_def)
qed

lemma getitem_columns_Inl:
  "getitem_columns df names = Inl e \<Longrightarrow>
     e = KeyError (filter (\<lambda>n. n \<notin> set (columns df)) names)"
  by (cases "filter (\<lambda>n. n \<notin> set (columns df)) names") (simp_all add: getitem_columns_def)

lemma adrs_head_Inr:
  "(\<exists>d. adrs_head df = Inr d) \<longleftrightarrow>
     {''sharadar_Ticker'', ''sharadar_Name'', ''sharadar_Category''} \<subseteq> set (columns df)"
proof (cases "adrs_frame df")
  case (Inl e)
  then have "''sharadar_Category'' \<notin> set (columns df)"
    by (auto simp: adrs_frame_eq index_of_None split: option.splits)
  with Inl show ?thesis by (simp add: adrs_head_def)
next
  case (Inr out)
  have "(\<exists>d. adrs_head df = Inr d) \<longleftrightarrow>
      (\<exists>d. getitem_columns out [''sharadar_Ticker'', ''sharadar_Name'', ''sharadar_Category''] = Inr d)"
    using Inr
    by (cases "getitem_columns out [''sharadar_Ticker'', ''sharadar_Name'', ''sharadar_Category'']")
      (simp_all add: adrs_head_def)
  then show ?thesis
    by (simp add: getitem_columns_Inr frame_columns(3) [OF Inr])
qed

subsection \<open>Files written and read\<close>

lemma index_of_header_csv:
  "x \<noteq> [] \<Longrightarrow> index_of x (header (csv_of df)) = map_option Suc (index_of x (columns df))"
  by (simp add: csv_of_def)

lemma map_filter_set: "set (List.map_filter f xs) = {y. \<exists>x\<in>set xs. f x = Some y}"
  by (force simp: List.map_filter_def image_iff)

lemma records_csv_cell:
  "{s. \<exists>r\<in>set (records (csv_of df)). cell_at r (Suc k) = Some s}
     = {s. \<exists>r\<in>set (rows df). cell_at (snd r) k = Some s}"
  by (force simp: csv_of_def cell_at_Cons_Suc case_prod_unfold)

lemma identifiers_present:
  "index_of identifier_column (header f) = Some j \<Longrightarrow>
     set (identifiers f) = {s. \<exists>r\<in>set (records f). cell_at r j = Some s}"
  by (simp add: identifiers_def map_filter_set)

lemma identifiers_absent:
  "index_of identifier_column (header f) = None \<Longrightarrow> identifiers f = []"
  by (simp add: identifiers_def)

lemma identifiers_csv_of:
  "set (identifiers (csv_of df)) =
     (case index_of identifier_column (columns df) of
        None \<Rightarrow> {}
      | Some j \<Rightarrow> {s. \<exists>r\<in>set (rows df). cell_at (snd r) j = Some s})"
proof (cases "index_of identifier_column (columns df)")
  case None
  then have "index_of identifier_column (header (csv_of df)) = None"
    by (simp add: index_of_header_csv identifier_column_def)
  with None show ?thesis by (simp add: identifiers_absent)
next
  case (Some j)
  then have "index_of identifier_column (header (csv_of df)) = Some (Suc j)"
    by (simp add: index_of_header_csv identifier_column_def)
  from identifiers_present [OF this] Some show ?thesis
    by (simp add: records_csv_cell)
qed

lemma cell_at_pad_any: "cell_at (pad n cs) k = cell_at cs k"
  by (auto simp: cell_at_def pad_def nth_append)

lemma cell_at_blank: "blank r \<Longrightarrow> cell_at r k = None"
  by (auto simp: blank_def cell_at_def)

lemma frame_of_simps:
  "columns (frame_of f) = header f"
  "map fst (rows (frame_of f)) = [0..<length (filter (\<lambda>r. \<not> blank r) (records f))]"
  "map snd (rows (frame_of f))
     = map (pad (length (header f))) (filter (\<lambda>r. \<not> blank r) (records f))"
  by (simp_all add: frame_of_def Let_def)

lemma frame_of_cells:
  "{s. \<exists>r\<in>set (rows (frame_of f)). P (cell_at (snd r) k) \<and> cell_at (snd r) j = Some s}
     = {s. \<exists>r\<in>set (records f). P (cell_at r k) \<and> cell_at r j = Some s}"
proof -
  have "snd ` set (rows (frame_of f)) = set (map snd (rows (frame_of f)))"
    by simp
  also have "\<dots> = pad (length (header f)) ` {r \<in> set (records f). \<not> blank r}"
    unfolding frame_of_simps by simp
  finally have "snd ` set (rows (frame_of f))
      = pad (length (header f)) ` {r \<in> set (records f). \<not> blank r}" .
  then have "(\<exists>r\<in>set (rows (frame_of f)). Q (snd r))
      = (\<exists>r\<in>{r \<in> set (records f). \<not> blank r}. Q (pad (length (header f)) r))" for Q
    by (metis (no_types, lifting) image_iff)
  from this [of "\<lambda>c. P (cell_at c k) \<and> cell_at c j = Some s" for s]
  have "(\<exists>r\<in>set (rows (frame_of f)). P (cell_at (snd r) k) \<and> cell_at (snd r) j = Some s)
      = (\<exists>r\<in>set (records f). P (cell_at r k) \<and> cell_at r j = Some s)" for s
    by (auto simp: cell_at_pad_any cell_at_blank)
  then show ?thesis by simp
qed

lemma members_selected:
  "{s. \<exists>r\<in>set (filter (\<lambda>r. P (cell_at (snd r) k)) (rows (frame_of f))). cell_at (snd r) j = Some s}
     = {s. \<exists>r\<in>set (records f). P (cell_at r k) \<and> cell_at r j = Some s}"
proof -
  have "(\<exists>r\<in>set (filter Q xs). R r) = (\<exists>r\<in>set xs. Q r \<and> R r)"
    for Q R :: "nat \<times> cell list \<Rightarrow> bool" and xs
    by (induction xs) simp_all
  then show ?thesis by (simp only: frame_of_cells)
qed

lemma file_names_distinct:
  "securities_csv \<noteq> financials_csv" "securities_csv \<noteq> reits_csv" "securities_csv \<noteq> adrs_csv"
  "financials_csv \<noteq> reits_csv" "financials_csv \<noteq> adrs_csv" "reits_csv \<noteq> adrs_csv"
  by (simp_all add: securities_csv_def financials_csv_def reits_csv_def adrs_csv_def)

lemma create_universe_upd:
  "create_universe v c path (fs(path \<mapsto> g)) =
     (case v c g of
        Some e \<Rightarrow> Inl e
      | None \<Rightarrow> Inr \<lparr>code = c, members = set (identifiers g)\<rparr>)"
  by (simp add: create_universe_def)

lemma selection_cell_eq:
  "selection_cell v sel path c df fs =
     (case sel df of
        Inl e \<Rightarrow> (fs, Inl e)
      | Inr out \<Rightarrow>
          (fs(path \<mapsto> csv_of out),
           case v c (csv_of out) of
             Some e \<Rightarrow> Inl e
           | None \<Rightarrow> Inr \<lparr>code = c, members = set (identifiers (csv_of out))\<rparr>))"
  by (simp add: selection_cell_def to_csv_def create_universe_upd split: sum.splits)

subsection \<open>The run, cell by cell\<close>

lemma notebook_eq:
  "notebook v f fs =
     (case v ''nyse-stk'' f of
        Some e \<Rightarrow> (fs(securities_csv \<mapsto> f), Inl e)
      | None \<Rightarrow>
          if header f = [] then (fs(securities_csv \<mapsto> f), Inl (EmptyDataError securities_csv))
          else if list_ex (\<lambda>r. length (header f) < length r) (records f)
          then (fs(securities_csv \<mapsto> f), Inl (ParserError securities_csv))
          else
     (case financials_frame (frame_of f) of
        Inl e \<Rightarrow> (fs(securities_csv \<mapsto> f), Inl e)
      | Inr fin \<Rightarrow>
     (case v ''nyse-financials'' (csv_of fin) of
        Some e \<Rightarrow> (fs(securities_csv \<mapsto> f, financials_csv \<mapsto> csv_of fin), Inl e)
      | None \<Rightarrow>
     (case reits_frame (frame_of f) of
        Inl e \<Rightarrow> (fs(securities_csv \<mapsto> f, financials_csv \<mapsto> csv_of fin), Inl e)
      | Inr reit \<Rightarrow>
     (case v ''nyse-reits'' (csv_of reit) of
        Some e \<Rightarrow>
          (fs(securities_csv \<mapsto> f, financials_csv \<mapsto> csv_of fin, reits_csv \<mapsto> csv_of reit), Inl e)
      | None \<Rightarrow>
     (case adrs_head (frame_of f) of
        Inl e \<Rightarrow>
          (fs(securities_csv \<mapsto> f, financials_csv \<mapsto> csv_of fin, reits_csv \<mapsto> csv_of reit), Inl e)
      | Inr shown \<Rightarrow>
     (case adrs_frame (frame_of f) of
        Inl e \<Rightarrow>
          (fs(securities_csv \<mapsto> f, financials_csv \<mapsto> csv_of fin, reits_csv \<mapsto> csv_of reit), Inl e)
      | Inr adr \<Rightarrow>
     (case v ''nyse-adrs'' (csv_of adr) of
        Some e \<Rightarrow>
          (fs(securities_csv \<mapsto> f, financials_csv \<mapsto> csv_of fin, reits_csv \<mapsto> csv_of reit,
              adrs_csv \<mapsto> csv_of adr), Inl e)
      | None \<Rightarrow>
          (fs(securities_csv \<mapsto> f, financials_csv \<mapsto> csv_of fin, reits_csv \<mapsto> csv_of reit,
              adrs_csv \<mapsto> csv_of adr),
           Inr \<lparr>nyse_stk = \<lparr>code = ''nyse-stk'', members = set (identifiers f)\<rparr>,
                nyse_financials =
                  \<lparr>code = ''nyse-financials'', members = set (identifiers (csv_of fin))\<rparr>,
                nyse_reits = \<lparr>code = ''nyse-reits'', members = set (identifiers (csv_of reit))\<rparr>,
                nyse_adrs = \<lparr>code = ''nyse-adrs'', members = set (identifiers (csv_of adr))\<rparr>\<rparr>)))))))))"
proof -
  have ah: "adrs_head df = Inl e" if "adrs_frame df = Inl e" for df e
    using that by (simp add: adrs_head_def)
  show ?thesis
    by (auto simp: notebook_def Let_def download_master_file_def create_universe_upd read_csv_def
        sector_values_eq category_values_eq selection_cell_eq ah
        split: option.splits sum.splits)
qed

lemma notebook_run:
  assumes "notebook v f fs = (fs', Inr u)"
  obtains k1 k2 k3 where
    "index_of ''sharadar_Sector'' (header f) = Some k1"
    "index_of ''sharadar_Industry'' (header f) = Some k2"
    "index_of ''sharadar_Category'' (header f) = Some k3"
    "''sharadar_Ticker'' \<in> set (header f)"
    "''sharadar_Name'' \<in> set (header f)"
    "header f \<noteq> []"
    "\<not> list_ex (\<lambda>r. length (header f) < length r) (records f)"
    "financials_frame (frame_of f) = Inr ((frame_of f)\<lparr>rows :=
        filter (\<lambda>r. cell_at (snd r) k1 = Some ''Financial Services'') (rows (frame_of f))\<rparr>)"
    "reits_frame (frame_of f) = Inr ((frame_of f)\<lparr>rows :=
        filter (\<lambda>r. str_contains ''REIT'' (case cell_at (snd r) k2 of None \<Rightarrow> [] | Some x \<Rightarrow> x))
          (rows (frame_of f))\<rparr>)"
    "adrs_frame (frame_of f) = Inr ((frame_of f)\<lparr>rows :=
        filter (\<lambda>r. prefix ''ADR'' (case cell_at (snd r) k3 of None \<Rightarrow> [] | Some x \<Rightarrow> x))
          (rows (frame_of f))\<rparr>)"
    "fs' financials_csv = Some (csv_of ((frame_of f)\<lparr>rows :=
        filter (\<lambda>r. cell_at (snd r) k1 = Some ''Financial Services'') (rows (frame_of f))\<rparr>))"
    "fs' reits_csv = Some (csv_of ((frame_of f)\<lparr>rows :=
        filter (\<lambda>r. str_contains ''REIT'' (case cell_at (snd r) k2 of None \<Rightarrow> [] | Some x \<Rightarrow> x))
          (rows (frame_of f))\<rparr>))"
    "fs' adrs_csv = Some (csv_of ((frame_of f)\<lparr>rows :=
        filter (\<lambda>r. prefix ''ADR'' (case cell_at (snd r) k3 of None \<Rightarrow> [] | Some x \<Rightarrow> x))
          (rows (frame_of f))\<rparr>))"
    "members (nyse_stk u) = set (identifiers f)"
    "members (nyse_financials u) = set (identifiers (csv_of ((frame_of f)\<lparr>rows :=
        filter (\<lambda>r. cell_at (snd r) k1 = Some ''Financial Services'') (rows (frame_of f))\<rparr>)))"
    "members (nyse_reits u) = set (identifiers (csv_of ((frame_of f)\<lparr>rows :=
        filter (\<lambda>r. str_contains ''REIT'' (case cell_at (snd r) k2 of None \<Rightarrow> [] | Some x \<Rightarrow> x))
          (rows (frame_of f))\<rparr>)))"
    "members (nyse_adrs u) = set (identifiers (csv_of ((frame_of f)\<lparr>rows :=
        filter (\<lambda>r. prefix ''ADR'' (case cell_at (snd r) k3 of None \<Rightarrow> [] | Some x \<Rightarrow> x))
          (rows (frame_of f))\<rparr>)))"
proof -
  let ?P1 = "\<lambda>k (r :: nat \<times> cell list). cell_at (snd r) k = Some ''Financial Services''"
  let ?P2 = "\<lambda>k (r :: nat \<times> cell list).
      str_contains ''REIT'' (case cell_at (snd r) k of None \<Rightarrow> [] | Some x \<Rightarrow> x)"
  let ?P3 = "\<lambda>k (r :: nat \<times> cell list).
      prefix ''ADR'' (case cell_at (snd r) k of None \<Rightarrow> [] | Some x \<Rightarrow> x)"
  let ?sel = "\<lambda>P. (frame_of f)\<lparr>rows := filter P (rows (frame_of f))\<rparr>"
  have cols: "columns (frame_of f) = header f" by (simp add: frame_of_simps)
  from assms obtain fin reit adr shown where hd: "header f \<noteq> []"
    and long: "\<not> list_ex (\<lambda>r. length (header f) < length r) (records f)"
    and fin: "financials_frame (frame_of f) = Inr fin"
    and reit: "reits_frame (frame_of f) = Inr reit"
    and adr: "adrs_frame (frame_of f) = Inr adr"
    and shown: "adrs_head (frame_of f) = Inr shown"
    and fs': "fs' = fs(securities_csv \<mapsto> f, financials_csv \<mapsto> csv_of fin,
                       reits_csv \<mapsto> csv_of reit, adrs_csv \<mapsto> csv_of adr)"
    and u: "u = \<lparr>nyse_stk = \<lparr>code = ''nyse-stk'', members = set (identifiers f)\<rparr>,
                nyse_financials =
                  \<lparr>code = ''nyse-financials'', members = set (identifiers (csv_of fin))\<rparr>,
                nyse_reits = \<lparr>code = ''nyse-reits'', members = set (identifiers (csv_of reit))\<rparr>,
                nyse_adrs = \<lparr>code = ''nyse-adrs'', members = set (identifiers (csv_of adr))\<rparr>\<rparr>"
    by (auto simp: notebook_eq split: option.splits if_splits sum.splits)
  from fin obtain k1 where k1: "index_of ''sharadar_Sector'' (header f) = Some k1"
    and fin_eq: "fin = ?sel (?P1 k1)"
    by (auto simp: financials_frame_eq cols split: option.splits)
  from reit obtain k2 where k2: "index_of ''sharadar_Industry'' (header f) = Some k2"
    and reit_eq: "reit = ?sel (?P2 k2)"
    by (auto simp: reits_frame_eq cols split: option.splits)
  from adr obtain k3 where k3: "index_of ''sharadar_Category'' (header f) = Some k3"
    and adr_eq: "adr = ?sel (?P3 k3)"
    by (auto simp: adrs_frame_eq cols split: option.splits)
  from shown have tn: "''sharadar_Ticker'' \<in> set (header f)" "''sharadar_Name'' \<in> set (header f)"
    using adrs_head_Inr [of "frame_of f"] by (auto simp: cols)
  have files: "fs' financials_csv = Some (csv_of (?sel (?P1 k1)))"
    "fs' reits_csv = Some (csv_of (?sel (?P2 k2)))"
    "fs' adrs_csv = Some (csv_of (?sel (?P3 k3)))"
    by (simp_all add: fs' fin_eq reit_eq adr_eq file_names_distinct)
  have m: "members (nyse_stk u) = set (identifiers f)"
    "members (nyse_financials u) = set (identifiers (csv_of (?sel (?P1 k1))))"
    "members (nyse_reits u) = set (identifiers (csv_of (?sel (?P2 k2))))"
    "members (nyse_adrs u) = set (identifiers (csv_of (?sel (?P3 k3))))"
    by (simp_all add: u fin_eq reit_eq adr_eq)
  show thesis
    by (rule that [OF k1 k2 k3 tn hd long fin [unfolded fin_eq] reit [unfolded reit_eq]
          adr [unfolded adr_eq] files m])
qed

lemma selected_identifiers:
  assumes "index_of identifier_column (header f) = Some j"
  shows "set (identifiers (csv_of ((frame_of f)\<lparr>rows :=
            filter (\<lambda>r. P (cell_at (snd r) k)) (rows (frame_of f))\<rparr>)))
     = {s. \<exists>r\<in>set (records f). P (cell_at r k) \<and> cell_at r j = Some s}"
proof -
  have "set (identifiers (csv_of ((frame_of f)\<lparr>rows :=
            filter (\<lambda>r. P (cell_at (snd r) k)) (rows (frame_of f))\<rparr>)))
     = {s. \<exists>r\<in>set (filter (\<lambda>r. P (cell_at (snd r) k)) (rows (frame_of f))).
             cell_at (snd r) j = Some s}"
    using assms by (simp add: identifiers_csv_of frame_of_simps)
  then show ?thesis by (simp only: members_selected)
qed

lemma notebook_members:
  assumes "notebook v f fs = (fs', Inr u)"
    and "index_of identifier_column (header f) = Some j"
  obtains k1 k2 k3 where
    "index_of ''sharadar_Sector'' (header f) = Some k1"
    "index_of ''sharadar_Industry'' (header f) = Some k2"
    "index_of ''sharadar_Category'' (header f) = Some k3"
    "members (nyse_stk u) = {s. \<exists>r\<in>set (records f). cell_at r j = Some s}"
    "members (nyse_financials u) =
       {s. \<exists>r\<in>set (records f). cell_at r k1 = Some ''Financial Services'' \<and> cell_at r j = Some s}"
    "members (nyse_reits u) =
       {s. \<exists>r\<in>set (records f).
             str_contains ''REIT'' (case cell_at r k2 of None \<Rightarrow> [] | Some x \<Rightarrow> x) \<and> cell_at r j = Some s}"
    "members (nyse_adrs u) =
       {s. \<exists>r\<in>set (records f).
             prefix ''ADR'' (case cell_at r k3 of None \<Rightarrow> [] | Some x \<Rightarrow> x) \<and> cell_at r j = Some s}"
proof -
  from assms(1) obtain k1 k2 k3 where
    ix: "index_of ''sharadar_Sector'' (header f) = Some k1"
      "index_of ''sharadar_Industry'' (header f) = Some k2"
      "index_of ''sharadar_Category'' (header f) = Some k3"
    and m0: "members (nyse_stk u) = set (identifiers f)"
    and m1: "members (nyse_financials u) = set (identifiers (csv_of ((frame_of f)\<lparr>rows :=
        filter (\<lambda>r. cell_at (snd r) k1 = Some ''Financial Services'') (rows (frame_of f))\<rparr>)))"
    and m2: "members (nyse_reits u) = set (identifiers (csv_of ((frame_of f)\<lparr>rows :=
        filter (\<lambda>r. str_contains ''REIT'' (case cell_at (snd r) k2 of None \<Rightarrow> [] | Some x \<Rightarrow> x))
          (rows (frame_of f))\<rparr>)))"
    and m3: "members (nyse_adrs u) = set (identifiers (csv_of ((frame_of f)\<lparr>rows :=
        filter (\<lambda>r. prefix ''ADR'' (case cell_at (snd r) k3 of None \<Rightarrow> [] | Some x \<Rightarrow> x))
          (rows (frame_of f))\<rparr>)))"
    by (rule notebook_run)
  note sel = selected_identifiers [OF assms(2)]
  show thesis
  proof (rule that [OF ix])
    show "members (nyse_stk u) = {s. \<exists>r\<in>set (records f). cell_at r j = Some s}"
      by (simp only: m0 identifiers_present [OF assms(2)])
    show "members (nyse_financials u) =
       {s. \<exists>r\<in>set (records f). cell_at r k1 = Some ''Financial Services'' \<and> cell_at r j = Some s}"
      unfolding m1 by (rule sel [of "\<lambda>c. c = Some ''Financial Services''"])
    show "members (nyse_reits u) =
       {s. \<exists>r\<in>set (records f).
             str_contains ''REIT'' (case cell_at r k2 of None \<Rightarrow> [] | Some x \<Rightarrow> x) \<and> cell_at r j = Some s}"
      unfolding m2
      by (rule sel [of "\<lambda>c. str_contains ''REIT'' (case c of None \<Rightarrow> [] | Some x \<Rightarrow> x)"])
    show "members (nyse_adrs u) =
       {s. \<exists>r\<in>set (records f).
             prefix ''ADR'' (case cell_at r k3 of None \<Rightarrow> [] | Some x \<Rightarrow> x) \<and> cell_at r j = Some s}"
      unfolding m3
      by (rule sel [of "\<lambda>c. prefix ''ADR'' (case c of None \<Rightarrow> [] | Some x \<Rightarrow> x)"])
  qed
qed

lemma notebook_complete:
  assumes "index_of ''sharadar_Sector'' (header f) = Some k1"
    and "index_of ''sharadar_Industry'' (header f) = Some k2"
    and "index_of ''sharadar_Category'' (header f) = Some k3"
    and "''sharadar_Ticker'' \<in> set (header f)" and "''sharadar_Name'' \<in> set (header f)"
    and "\<not> list_ex (\<lambda>r. length (header f) < length r) (records f)"
  shows "\<exists>fs' u. notebook accepting f fs = (fs', Inr u)"
proof -
  from assms(1) have ne: "header f \<noteq> []" by auto
  from assms(3) have "''sharadar_Category'' \<in> set (header f)"
    using index_of_None [of "''sharadar_Category''" "header f"] by simp
  with assms(4,5) obtain shown where "adrs_head (frame_of f) = Inr shown"
    using adrs_head_Inr [of "frame_of f"] by (auto simp: frame_of_simps)
  with assms ne show ?thesis
    by (simp add: notebook_eq accepting_def financials_frame_eq reits_frame_eq adrs_frame_eq
        frame_of_simps)
qed

subsection \<open>The frame of a file and the file of a selection\<close>

lemma frame_of_distinct: "distinct (map fst (filter P (rows (frame_of f))))"
proof -
  have "distinct (map fst (rows (frame_of f)))" by (simp add: frame_of_simps)
  then show ?thesis by (rule distinct_map_filter)
qed

lemma records_csv_of_filter:
  "rec \<in> set (records (csv_of (df\<lparr>rows := filter P (rows df)\<rparr>))) \<Longrightarrow>
     \<exists>r\<in>set (rows df). P r \<and> tl rec = snd r"
  by (auto simp: csv_of_def)




subsection \<open>Missing cells in the masks\<close>

lemma null_mask_elements:
  "series_eq [None] ''Financial Services'' = [Some False]"
  "series_str_contains (fillna [] [None]) ''REIT'' = [Some False]"
  "series_str_startswith (fillna [] [None]) ''ADR'' = [Some False]"
  by (simp_all add: series_eq_def series_str_contains_def series_str_startswith_def fillna_def
      str_startswith_def)

lemma series_eq_fillna:
  "lit \<noteq> [] \<Longrightarrow> series_eq (fillna [] c) lit = series_eq c lit"
  by (auto simp: series_eq_def fillna_def split: option.splits)


subsection \<open>The example tables\<close>

lemma example_headers:
  "index_of identifier_column master_header = Some 0"
  "index_of ''sharadar_Sector'' master_header = Some 3"
  "index_of ''sharadar_Industry'' master_header = Some 4"
  "index_of ''sharadar_Category'' master_header = Some 5"
  "''sharadar_Ticker'' \<in> set master_header"
  "''sharadar_Name'' \<in> set master_header"
  by (simp_all add: master_header_def identifier_column_def)

lemma example_runs:
  "\<exists>fs' u. notebook accepting example_sectors Map.empty = (fs', Inr u)"
  "\<exists>fs' u. notebook accepting example_industries Map.empty = (fs', Inr u)"
  "\<exists>fs' u. notebook accepting example_categories Map.empty = (fs', Inr u)"
  "\<exists>fs' u. notebook accepting example_overlap Map.empty = (fs', Inr u)"
  "\<exists>fs' u. notebook accepting example_duplicate Map.empty = (fs', Inr u)"
  by (rule notebook_complete [of _ 3 4 5];
      simp add: example_sectors_def example_industries_def example_categories_def
        example_overlap_def example_duplicate_def example_headers;
      simp add: master_header_def)+

section \<open>The claims\<close>

text \<open>
  C1. A missing sector, industry or category never selects: in a complete run, an
  identifier whose records all have a missing sector (industry, category) is not in the
  financials (reits, adrs) universe, and every row written to the financials (reits, adrs)
  file has a sector (industry, category). The mask element of a missing cell is False in
  all three masks, and the sector comparison, which has no \<^verbatim>\<open>fillna\<close>, gives the
  mask it would give after one.
\<close>

theorem null_field_never_member:
  assumes "notebook v f fs = (fs', Inr u)"
    and "index_of identifier_column (header f) = Some j"
    and "index_of ''sharadar_Sector'' (header f) = Some k1"
    and "index_of ''sharadar_Industry'' (header f) = Some k2"
    and "index_of ''sharadar_Category'' (header f) = Some k3"
  shows "((\<forall>r\<in>set (records f). cell_at r j = Some s \<longrightarrow> cell_at r k1 = None)
            \<longrightarrow> s \<notin> members (nyse_financials u))
       \<and> ((\<forall>r\<in>set (records f). cell_at r j = Some s \<longrightarrow> cell_at r k2 = None)
            \<longrightarrow> s \<notin> members (nyse_reits u))
       \<and> ((\<forall>r\<in>set (records f). cell_at r j = Some s \<longrightarrow> cell_at r k3 = None)
            \<longrightarrow> s \<notin> members (nyse_adrs u))
       \<and> (\<exists>g. fs' financials_csv = Some g \<and> (\<forall>rec\<in>set (records g). cell_at (tl rec) k1 \<noteq> None))
       \<and> (\<exists>g. fs' reits_csv = Some g \<and> (\<forall>rec\<in>set (records g). cell_at (tl rec) k2 \<noteq> None))
       \<and> (\<exists>g. fs' adrs_csv = Some g \<and> (\<forall>rec\<in>set (records g). cell_at (tl rec) k3 \<noteq> None))
       \<and> series_eq [None] ''Financial Services'' = [Some False]
       \<and> series_str_contains (fillna [] [None]) ''REIT'' = [Some False]
       \<and> series_str_startswith (fillna [] [None]) ''ADR'' = [Some False]
       \<and> series_eq (fillna [] c) ''Financial Services'' = series_eq c ''Financial Services''"
proof -
  let ?sel = "\<lambda>P. (frame_of f)\<lparr>rows := filter P (rows (frame_of f))\<rparr>"
  from assms(1) obtain k1' k2' k3' where
    ix: "index_of ''sharadar_Sector'' (header f) = Some k1'"
      "index_of ''sharadar_Industry'' (header f) = Some k2'"
      "index_of ''sharadar_Category'' (header f) = Some k3'"
    and f1: "fs' financials_csv = Some (csv_of (?sel
        (\<lambda>r. cell_at (snd r) k1' = Some ''Financial Services'')))"
    and f2: "fs' reits_csv = Some (csv_of (?sel
        (\<lambda>r. str_contains ''REIT'' (case cell_at (snd r) k2' of None \<Rightarrow> [] | Some x \<Rightarrow> x))))"
    and f3: "fs' adrs_csv = Some (csv_of (?sel
        (\<lambda>r. prefix ''ADR'' (case cell_at (snd r) k3' of None \<Rightarrow> [] | Some x \<Rightarrow> x))))"
    by (rule notebook_run)
  from assms(1,2) obtain k1'' k2'' k3'' where
    ix': "index_of ''sharadar_Sector'' (header f) = Some k1''"
      "index_of ''sharadar_Industry'' (header f) = Some k2''"
      "index_of ''sharadar_Category'' (header f) = Some k3''"
    and m1: "members (nyse_financials u) =
       {s. \<exists>r\<in>set (records f). cell_at r k1'' = Some ''Financial Services'' \<and> cell_at r j = Some s}"
    and m2: "members (nyse_reits u) =
       {s. \<exists>r\<in>set (records f).
             str_contains ''REIT'' (case cell_at r k2'' of None \<Rightarrow> [] | Some x \<Rightarrow> x) \<and> cell_at r j = Some s}"
    and m3: "members (nyse_adrs u) =
       {s. \<exists>r\<in>set (records f).
             prefix ''ADR'' (case cell_at r k3'' of None \<Rightarrow> [] | Some x \<Rightarrow> x) \<and> cell_at r j = Some s}"
    by (rule notebook_members)
  from ix ix' assms(3-5) have eq: "k1' = k1" "k2' = k2" "k3' = k3"
    "k1'' = k1" "k2'' = k2" "k3'' = k3" by simp_all
  have a: "(\<forall>r\<in>set (records f). cell_at r j = Some s \<longrightarrow> cell_at r k1 = None)
            \<longrightarrow> s \<notin> members (nyse_financials u)"
    unfolding m1 eq by auto
  have b: "(\<forall>r\<in>set (records f). cell_at r j = Some s \<longrightarrow> cell_at r k2 = None)
            \<longrightarrow> s \<notin> members (nyse_reits u)"
    unfolding m2 eq by auto
  have c: "(\<forall>r\<in>set (records f). cell_at r j = Some s \<longrightarrow> cell_at r k3 = None)
            \<longrightarrow> s \<notin> members (nyse_adrs u)"
    unfolding m3 eq by auto
  have d: "\<exists>g. fs' financials_csv = Some g \<and> (\<forall>rec\<in>set (records g). cell_at (tl rec) k1 \<noteq> None)"
    unfolding f1 eq by (auto dest!: records_csv_of_filter)
  have e: "\<exists>g. fs' reits_csv = Some g \<and> (\<forall>rec\<in>set (records g). cell_at (tl rec) k2 \<noteq> None)"
    unfolding f2 eq by (auto dest!: records_csv_of_filter split: option.splits)
  have g: "\<exists>g. fs' adrs_csv = Some g \<and> (\<forall>rec\<in>set (records g). cell_at (tl rec) k3 \<noteq> None)"
    unfolding f3 eq by (auto dest!: records_csv_of_filter split: option.splits)
  have h: "series_eq (fillna [] c) ''Financial Services'' = series_eq c ''Financial Services''"
    by (rule series_eq_fillna) simp
  from a b c d e g h null_mask_elements show ?thesis by blast
qed

theorem null_field_never_member_witness:
  "map_sum id
     (\<lambda>u. ''C'' \<in> members (nyse_financials u) \<or> ''C'' \<in> members (nyse_reits u)
           \<or> ''C'' \<in> members (nyse_adrs u))
     (snd (notebook accepting example_sectors Map.empty)) = Inr False"
proof -
  from example_runs(1) obtain fs' u where
    run: "notebook accepting example_sectors Map.empty = (fs', Inr u)"
    by blast
  have ix: "index_of identifier_column (header example_sectors) = Some 0"
    "index_of ''sharadar_Sector'' (header example_sectors) = Some 3"
    "index_of ''sharadar_Industry'' (header example_sectors) = Some 4"
    "index_of ''sharadar_Category'' (header example_sectors) = Some 5"
    by (simp_all add: example_sectors_def example_headers)
  have n1: "\<forall>r\<in>set (records example_sectors). cell_at r 0 = Some ''C'' \<longrightarrow> cell_at r 3 = None"
    and n2: "\<forall>r\<in>set (records example_sectors). cell_at r 0 = Some ''C'' \<longrightarrow> cell_at r 4 = None"
    and n3: "\<forall>r\<in>set (records example_sectors). cell_at r 0 = Some ''C'' \<longrightarrow> cell_at r 5 = None"
    by (simp_all add: example_sectors_def cell_at_def)
  from null_field_never_member [OF run ix, of "''C''"] n1 n2 n3
  have "''C'' \<notin> members (nyse_financials u)" "''C'' \<notin> members (nyse_reits u)"
    "''C'' \<notin> members (nyse_adrs u)"
    by blast+
  with run show ?thesis by simp
qed

text \<open>
  C2. The financials universe holds exactly the identifiers of the records whose sector is
  the string "Financial Services" itself, and the financials file exactly those rows.
\<close>

theorem financials_universe_exact:
  assumes "notebook v f fs = (fs', Inr u)"
    and "index_of ''sharadar_Sector'' (header f) = Some k"
    and "index_of identifier_column (header f) = Some j"
  shows "members (nyse_financials u) =
           {s. \<exists>r\<in>set (records f). cell_at r k = Some ''Financial Services'' \<and> cell_at r j = Some s}
       \<and> fs' financials_csv = Some (csv_of ((frame_of f)\<lparr>rows :=
           filter (\<lambda>r. cell_at (snd r) k = Some ''Financial Services'') (rows (frame_of f))\<rparr>))"
proof -
  from assms(1) obtain k' where
    ix: "index_of ''sharadar_Sector'' (header f) = Some k'"
    and wr: "fs' financials_csv = Some (csv_of ((frame_of f)\<lparr>rows :=
        filter (\<lambda>r. cell_at (snd r) k' = Some ''Financial Services'') (rows (frame_of f))\<rparr>))"
    by (rule notebook_run)
  from assms(1,3) obtain k'' where
    ix': "index_of ''sharadar_Sector'' (header f) = Some k''"
    and m: "members (nyse_financials u) =
       {s. \<exists>r\<in>set (records f). cell_at r k'' = Some ''Financial Services'' \<and> cell_at r j = Some s}"
    by (rule notebook_members)
  from ix ix' assms(2) have "k' = k" "k'' = k" by simp_all
  with wr m show ?thesis by simp
qed

theorem financials_universe_exact_witness:
  "map_sum id (\<lambda>u. members (nyse_financials u))
     (snd (notebook accepting example_sectors Map.empty)) = Inr {''A''}"
proof -
  from example_runs(1) obtain fs' u where
    run: "notebook accepting example_sectors Map.empty = (fs', Inr u)"
    by blast
  from financials_universe_exact [OF run, of 3 0]
  have "members (nyse_financials u) =
      {s. \<exists>r\<in>set (records example_sectors).
            cell_at r 3 = Some ''Financial Services'' \<and> cell_at r 0 = Some s}"
    by (simp add: example_sectors_def example_headers)
  also have "\<dots> = {''A''}"
    by (auto simp: example_sectors_def cell_at_def)
  finally show ?thesis using run by simp
qed

text \<open>
  C3. The reits universe holds exactly the identifiers of the records whose industry, read
  as the empty string when missing, has the text "REIT" somewhere in it (same case), and
  the reits file exactly those rows.
\<close>

theorem reits_universe_exact:
  assumes "notebook v f fs = (fs', Inr u)"
    and "index_of ''sharadar_Industry'' (header f) = Some k"
    and "index_of identifier_column (header f) = Some j"
  shows "members (nyse_reits u) =
           {s. \<exists>r\<in>set (records f).
                 (\<exists>pre suf. (case cell_at r k of None \<Rightarrow> [] | Some x \<Rightarrow> x) = pre @ ''REIT'' @ suf)
                 \<and> cell_at r j = Some s}
       \<and> fs' reits_csv = Some (csv_of ((frame_of f)\<lparr>rows :=
           filter (\<lambda>r. \<exists>pre suf. (case cell_at (snd r) k of None \<Rightarrow> [] | Some x \<Rightarrow> x)
                                   = pre @ ''REIT'' @ suf)
             (rows (frame_of f))\<rparr>))"
proof -
  from assms(1) obtain k' where
    ix: "index_of ''sharadar_Industry'' (header f) = Some k'"
    and wr: "fs' reits_csv = Some (csv_of ((frame_of f)\<lparr>rows :=
        filter (\<lambda>r. str_contains ''REIT'' (case cell_at (snd r) k' of None \<Rightarrow> [] | Some x \<Rightarrow> x))
          (rows (frame_of f))\<rparr>))"
    by (rule notebook_run)
  from assms(1,3) obtain k'' where
    ix': "index_of ''sharadar_Industry'' (header f) = Some k''"
    and m: "members (nyse_reits u) =
       {s. \<exists>r\<in>set (records f).
             str_contains ''REIT'' (case cell_at r k'' of None \<Rightarrow> [] | Some x \<Rightarrow> x) \<and> cell_at r j = Some s}"
    by (rule notebook_members)
  from ix ix' assms(2) have "k' = k" "k'' = k" by simp_all
  with wr m show ?thesis by (simp add: str_contains_iff)
qed

theorem reits_universe_exact_witness:
  "map_sum id (\<lambda>u. members (nyse_reits u))
     (snd (notebook accepting example_industries Map.empty)) = Inr {''X'', ''Y''}"
proof -
  from example_runs(2) obtain fs' u where
    run: "notebook accepting example_industries Map.empty = (fs', Inr u)"
    by blast
  from reits_universe_exact [OF run, of 4 0]
  have "members (nyse_reits u) =
      {s. \<exists>r\<in>set (records example_industries).
            str_contains ''REIT'' (case cell_at r 4 of None \<Rightarrow> [] | Some x \<Rightarrow> x) \<and> cell_at r 0 = Some s}"
    by (simp add: example_industries_def example_headers str_contains_iff)
  also have "\<dots> = {''X'', ''Y''}"
    by (auto simp: example_industries_def cell_at_def)
  finally show ?thesis using run by simp
qed

text \<open>
  C4. The adrs universe holds exactly the identifiers of the records whose category, read
  as the empty string when missing, starts with "ADR", and the adrs file exactly those rows.
\<close>

theorem adrs_universe_exact:
  assumes "notebook v f fs = (fs', Inr u)"
    and "index_of ''sharadar_Category'' (header f) = Some k"
    and "index_of identifier_column (header f) = Some j"
  shows "members (nyse_adrs u) =
           {s. \<exists>r\<in>set (records f).
                 (\<exists>suf. (case cell_at r k of None \<Rightarrow> [] | Some x \<Rightarrow> x) = ''ADR'' @ suf)
                 \<and> cell_at r j = Some s}
       \<and> fs' adrs_csv = Some (csv_of ((frame_of f)\<lparr>rows :=
           filter (\<lambda>r. \<exists>suf. (case cell_at (snd r) k of None \<Rightarrow> [] | Some x \<Rightarrow> x) = ''ADR'' @ suf)
             (rows (frame_of f))\<rparr>))"
proof -
  from assms(1) obtain k' where
    ix: "index_of ''sharadar_Category'' (header f) = Some k'"
    and wr: "fs' adrs_csv = Some (csv_of ((frame_of f)\<lparr>rows :=
        filter (\<lambda>r. prefix ''ADR'' (case cell_at (snd r) k' of None \<Rightarrow> [] | Some x \<Rightarrow> x))
          (rows (frame_of f))\<rparr>))"
    by (rule notebook_run)
  from assms(1,3) obtain k'' where
    ix': "index_of ''sharadar_Category'' (header f) = Some k''"
    and m: "members (nyse_adrs u) =
       {s. \<exists>r\<in>set (records f).
             prefix ''ADR'' (case cell_at r k'' of None \<Rightarrow> [] | Some x \<Rightarrow> x) \<and> cell_at r j = Some s}"
    by (rule notebook_members)
  from ix ix' assms(2) have "k' = k" "k'' = k" by simp_all
  with wr m show ?thesis by (simp add: prefix_iff)
qed

theorem adrs_universe_exact_witness:
  "map_sum id (\<lambda>u. members (nyse_adrs u))
     (snd (notebook accepting example_categories Map.empty)) = Inr {''P'', ''R''}"
proof -
  from example_runs(3) obtain fs' u where
    run: "notebook accepting example_categories Map.empty = (fs', Inr u)"
    by blast
  from adrs_universe_exact [OF run, of 5 0]
  have "members (nyse_adrs u) =
      {s. \<exists>r\<in>set (records example_categories).
            prefix ''ADR'' (case cell_at r 5 of None \<Rightarrow> [] | Some x \<Rightarrow> x) \<and> cell_at r 0 = Some s}"
    by (simp add: example_categories_def example_headers prefix_iff)
  also have "\<dots> = {''P'', ''R''}"
    by (auto simp: example_categories_def cell_at_def)
  finally show ?thesis using run by simp
qed

text \<open>
  C5. In a complete run each of the financials, reits and adrs universes is a subset of the
  universe of all securities of the exchange.
\<close>

theorem exclusions_subset_all:
  assumes "notebook v f fs = (fs', Inr u)"
  shows "members (nyse_financials u) \<subseteq> members (nyse_stk u)
       \<and> members (nyse_reits u) \<subseteq> members (nyse_stk u)
       \<and> members (nyse_adrs u) \<subseteq> members (nyse_stk u)"
proof (cases "index_of identifier_column (header f)")
  case None
  from assms obtain k1 k2 k3 where
    "members (nyse_financials u) = set (identifiers (csv_of ((frame_of f)\<lparr>rows :=
        filter (\<lambda>r. cell_at (snd r) k1 = Some ''Financial Services'') (rows (frame_of f))\<rparr>)))"
    "members (nyse_reits u) = set (identifiers (csv_of ((frame_of f)\<lparr>rows :=
        filter (\<lambda>r. str_contains ''REIT'' (case cell_at (snd r) k2 of None \<Rightarrow> [] | Some x \<Rightarrow> x))
          (rows (frame_of f))\<rparr>)))"
    "members (nyse_adrs u) = set (identifiers (csv_of ((frame_of f)\<lparr>rows :=
        filter (\<lambda>r. prefix ''ADR'' (case cell_at (snd r) k3 of None \<Rightarrow> [] | Some x \<Rightarrow> x))
          (rows (frame_of f))\<rparr>)))"
    by (rule notebook_run)
  with None show ?thesis
    by (simp add: identifiers_csv_of frame_of_simps)
next
  case (Some j)
  from assms Some obtain k1 k2 k3 where
    m0: "members (nyse_stk u) = {s. \<exists>r\<in>set (records f). cell_at r j = Some s}"
    and m1: "members (nyse_financials u) =
       {s. \<exists>r\<in>set (records f). cell_at r k1 = Some ''Financial Services'' \<and> cell_at r j = Some s}"
    and m2: "members (nyse_reits u) =
       {s. \<exists>r\<in>set (records f).
             str_contains ''REIT'' (case cell_at r k2 of None \<Rightarrow> [] | Some x \<Rightarrow> x) \<and> cell_at r j = Some s}"
    and m3: "members (nyse_adrs u) =
       {s. \<exists>r\<in>set (records f).
             prefix ''ADR'' (case cell_at r k3 of None \<Rightarrow> [] | Some x \<Rightarrow> x) \<and> cell_at r j = Some s}"
    by (rule notebook_members)
  show ?thesis unfolding m0 m1 m2 m3 by blast
qed

theorem exclusions_subset_all_witness:
  "map_sum id
     (\<lambda>u. members (nyse_financials u) \<subseteq> members (nyse_stk u)
         \<and> members (nyse_reits u) \<subseteq> members (nyse_stk u)
         \<and> members (nyse_adrs u) \<subseteq> members (nyse_stk u))
     (snd (notebook accepting example_overlap Map.empty)) = Inr True"
proof -
  from example_runs(4) obtain fs' u where
    run: "notebook accepting example_overlap Map.empty = (fs', Inr u)"
    by blast
  from exclusions_subset_all [OF run] run show ?thesis by simp
qed




text \<open>
  C7. The run is a function of the platform, the master table and the files. Running the
  notebook again on the same master table, from the files as the first run left them, ends
  with the same files and the same four universes (or the same exception) as the first
  run; the run leaves the master file as downloaded.
\<close>

theorem rerun_same:
  "notebook v f (fst (notebook v f fs)) = notebook v f fs
   \<and> fst (notebook v f fs) securities_csv = Some f"
  by (auto simp: notebook_eq file_names_distinct fun_upd_twist split: option.splits sum.splits)







text \<open>
  C10. In a complete run the three selections are made from the one frame read from the
  master file, each by its own predicate alone: a row of the frame is in a selection exactly
  when it satisfies that selection's predicate, whatever the other two say, so a row that
  satisfies two predicates is in both selections. Each selection keeps the frame's order
  (it is a subsequence of the frame's rows) and has every row label at most once, and each
  file is written from its selection.
\<close>

theorem selections_keep_order:
  assumes "notebook v f fs = (fs', Inr u)"
    and "index_of ''sharadar_Sector'' (header f) = Some k1"
    and "index_of ''sharadar_Industry'' (header f) = Some k2"
    and "index_of ''sharadar_Category'' (header f) = Some k3"
  shows "\<exists>fin reit adr.
           read_csv securities_csv (download_master_file securities_csv f fs) = Inr (frame_of f)
         \<and> financials_frame (frame_of f) = Inr fin
         \<and> reits_frame (frame_of f) = Inr reit
         \<and> adrs_frame (frame_of f) = Inr adr
         \<and> fs' financials_csv = Some (csv_of fin)
         \<and> fs' reits_csv = Some (csv_of reit)
         \<and> fs' adrs_csv = Some (csv_of adr)
         \<and> subseq (rows fin) (rows (frame_of f))
         \<and> subseq (rows reit) (rows (frame_of f))
         \<and> subseq (rows adr) (rows (frame_of f))
         \<and> distinct (map fst (rows fin))
         \<and> distinct (map fst (rows reit))
         \<and> distinct (map fst (rows adr))
         \<and> (\<forall>r\<in>set (rows (frame_of f)).
               (r \<in> set (rows fin) \<longleftrightarrow> cell_at (snd r) k1 = Some ''Financial Services'')
             \<and> (r \<in> set (rows reit) \<longleftrightarrow>
                  (\<exists>pre suf. (case cell_at (snd r) k2 of None \<Rightarrow> [] | Some x \<Rightarrow> x)
                               = pre @ ''REIT'' @ suf))
             \<and> (r \<in> set (rows adr) \<longleftrightarrow>
                  (\<exists>suf. (case cell_at (snd r) k3 of None \<Rightarrow> [] | Some x \<Rightarrow> x) = ''ADR'' @ suf)))"
proof -
  let ?P1 = "\<lambda>k (r :: nat \<times> cell list). cell_at (snd r) k = Some ''Financial Services''"
  let ?P2 = "\<lambda>k (r :: nat \<times> cell list).
      str_contains ''REIT'' (case cell_at (snd r) k of None \<Rightarrow> [] | Some x \<Rightarrow> x)"
  let ?P3 = "\<lambda>k (r :: nat \<times> cell list).
      prefix ''ADR'' (case cell_at (snd r) k of None \<Rightarrow> [] | Some x \<Rightarrow> x)"
  let ?sel = "\<lambda>P. (frame_of f)\<lparr>rows := filter P (rows (frame_of f))\<rparr>"
  from assms(1) obtain k1' k2' k3' where
    ix: "index_of ''sharadar_Sector'' (header f) = Some k1'"
      "index_of ''sharadar_Industry'' (header f) = Some k2'"
      "index_of ''sharadar_Category'' (header f) = Some k3'"
    and ne: "header f \<noteq> []"
    and long: "\<not> list_ex (\<lambda>r. length (header f) < length r) (records f)"
    and frames: "financials_frame (frame_of f) = Inr (?sel (?P1 k1'))"
      "reits_frame (frame_of f) = Inr (?sel (?P2 k2'))"
      "adrs_frame (frame_of f) = Inr (?sel (?P3 k3'))"
    and files: "fs' financials_csv = Some (csv_of (?sel (?P1 k1')))"
      "fs' reits_csv = Some (csv_of (?sel (?P2 k2')))"
      "fs' adrs_csv = Some (csv_of (?sel (?P3 k3')))"
    by (rule notebook_run)
  from ix assms(2-4) have eq: "k1' = k1" "k2' = k2" "k3' = k3" by simp_all
  have rd: "read_csv securities_csv (download_master_file securities_csv f fs) = Inr (frame_of f)"
    using long ne by (simp add: read_csv_def download_master_file_def)
  have sub: "subseq (rows (?sel P)) (rows (frame_of f))" for P
    by simp
  have dis: "distinct (map fst (rows (?sel P)))" for P
    by (simp add: frame_of_distinct)
  have mem: "\<forall>r\<in>set (rows (frame_of f)).
               (r \<in> set (rows (?sel (?P1 k1))) \<longleftrightarrow> cell_at (snd r) k1 = Some ''Financial Services'')
             \<and> (r \<in> set (rows (?sel (?P2 k2))) \<longleftrightarrow>
                  (\<exists>pre suf. (case cell_at (snd r) k2 of None \<Rightarrow> [] | Some x \<Rightarrow> x)
                               = pre @ ''REIT'' @ suf))
             \<and> (r \<in> set (rows (?sel (?P3 k3))) \<longleftrightarrow>
                  (\<exists>suf. (case cell_at (snd r) k3 of None \<Rightarrow> [] | Some x \<Rightarrow> x) = ''ADR'' @ suf))"
    by (simp add: str_contains_iff prefix_iff)
  from rd frames [unfolded eq] files [unfolded eq]
    sub [of "?P1 k1"] sub [of "?P2 k2"] sub [of "?P3 k3"]
    dis [of "?P1 k1"] dis [of "?P2 k2"] dis [of "?P3 k3"] mem
  show ?thesis by blast
qed

theorem selections_keep_order_witness:
  "\<exists>fin reit adr.
       fst (notebook accepting example_overlap Map.empty) financials_csv = Some (csv_of fin)
     \<and> fst (notebook accepting example_overlap Map.empty) reits_csv = Some (csv_of reit)
     \<and> fst (notebook accepting example_overlap Map.empty) adrs_csv = Some (csv_of adr)
     \<and> (0, [Some ''M'', Some ''MTG'', Some ''Mortgage Trust'', Some ''Financial Services'',
          Some ''REIT - Mortgage'', Some ''ADR''])
         \<in> set (rows fin) \<inter> set (rows reit) \<inter> set (rows adr)"
proof -
  let ?r = "(0::nat, [Some ''M'', Some ''MTG'', Some ''Mortgage Trust'', Some ''Financial Services'',
          Some ''REIT - Mortgage'', Some ''ADR''])"
  from example_runs(4) obtain fs' u where
    run: "notebook accepting example_overlap Map.empty = (fs', Inr u)"
    by blast
  have ix: "index_of ''sharadar_Sector'' (header example_overlap) = Some 3"
    "index_of ''sharadar_Industry'' (header example_overlap) = Some 4"
    "index_of ''sharadar_Category'' (header example_overlap) = Some 5"
    by (simp_all add: example_overlap_def example_headers)
  have r: "?r \<in> set (rows (frame_of example_overlap))"
    by (simp add: frame_of_def Let_def blank_def example_overlap_def master_header_def pad_def
        upt_rec)
  have p1: "cell_at (snd ?r) 3 = Some ''Financial Services''"
    by (simp add: cell_at_def)
  have "str_contains ''REIT'' (case cell_at (snd ?r) 4 of None \<Rightarrow> [] | Some x \<Rightarrow> x)"
    by (simp add: cell_at_def)
  then have p2: "\<exists>pre suf. (case cell_at (snd ?r) 4 of None \<Rightarrow> [] | Some x \<Rightarrow> x) = pre @ ''REIT'' @ suf"
    by (simp only: str_contains_iff)
  have "prefix ''ADR'' (case cell_at (snd ?r) 5 of None \<Rightarrow> [] | Some x \<Rightarrow> x)"
    by (simp add: cell_at_def)
  then have p3: "\<exists>suf. (case cell_at (snd ?r) 5 of None \<Rightarrow> [] | Some x \<Rightarrow> x) = ''ADR'' @ suf"
    by (simp only: prefix_iff)
  from selections_keep_order [OF run ix] obtain fin reit adr where
    "fs' financials_csv = Some (csv_of fin)" "fs' reits_csv = Some (csv_of reit)"
    "fs' adrs_csv = Some (csv_of adr)"
    and mem: "\<forall>r\<in>set (rows (frame_of example_overlap)).
               (r \<in> set (rows fin) \<longleftrightarrow> cell_at (snd r) 3 = Some ''Financial Services'')
             \<and> (r \<in> set (rows reit) \<longleftrightarrow>
                  (\<exists>pre suf. (case cell_at (snd r) 4 of None \<Rightarrow> [] | Some x \<Rightarrow> x)
                               = pre @ ''REIT'' @ suf))
             \<and> (r \<in> set (rows adr) \<longleftrightarrow>
                  (\<exists>suf. (case cell_at (snd r) 5 of None \<Rightarrow> [] | Some x \<Rightarrow> x) = ''ADR'' @ suf))"
    by blast
  moreover from mem r p1 p2 p3 have "?r \<in> set (rows fin) \<inter> set (rows reit) \<inter> set (rows adr)"
    by blast
  ultimately show ?thesis using run by auto
qed

end
